theory Spec2Isabelle
  imports Complex_Main "HOL-Library.Sublist" "HOL-Library.Multiset"
begin

section \<open>Strings\<close>

text \<open>
  A Python \<open>str\<close> is modelled as a \<open>string\<close> with one \<open>char\<close> per code point, so the
  model covers the code points below 256. \<open>s[:200]\<close> is \<open>take 200 s\<close> and \<open>+\<close> is \<open>@\<close>.
\<close>

definition lower_char :: "char \<Rightarrow> char" where
  \<comment> \<open>\<open>str.lower()\<close> on one code point below 256: A..Z and the upper-case letters of
      Latin-1 (U+00C0..U+00DE without the multiplication sign U+00D7) move up by 32.\<close>
  "lower_char c =
     (let n = (of_char c :: nat)
      in if (65 \<le> n \<and> n \<le> 90) \<or> (192 \<le> n \<and> n \<le> 222 \<and> n \<noteq> 215)
         then char_of (n + 32) else c)"

definition lower :: "string \<Rightarrow> string" where
  "lower s = map lower_char s"

fun startswith :: "string \<Rightarrow> string \<Rightarrow> bool" where
  "startswith s [] = True"
| "startswith [] (p # ps) = False"
| "startswith (c # cs) (p # ps) = (c = p \<and> startswith cs ps)"

fun str_contains :: "string \<Rightarrow> string \<Rightarrow> bool" where
  \<comment> \<open>\<open>str_contains needle hay\<close> is Python's \<open>needle in hay\<close> on strings.\<close>
  "str_contains needle [] = (needle = [])"
| "str_contains needle (c # cs) = (startswith (c # cs) needle \<or> str_contains needle cs)"

section \<open>Documents, errors and alerts\<close>

text \<open>
  A document of a search response is a dict decoded from JSON. Its values are modelled as
  scalars; a number is the exact value of the Python \<open>int\<close> or finite \<open>float\<close>.
\<close>

datatype json = JNull | JBool bool | JNum real | JStr string

type_synonym doc = "string \<rightharpoonup> json"

record response =
  documents :: "doc list option"
  total_results :: int

text \<open>The exceptions the modelled code can raise; all are subclasses of \<open>Exception\<close>.\<close>

datatype error =
    KeyError string | TypeError | AttributeError | OverflowError | SearchError string

record ThreatAlert =
  alert_id :: json
  title :: json
  source :: json
  severity :: string
  cvss_score :: real
  published_date :: json
  summary :: string
  recommended_action :: string

definition getitem :: "doc \<Rightarrow> string \<Rightarrow> error + json" where
  \<comment> \<open>\<open>doc[key]\<close>\<close>
  "getitem d k = (case d k of None \<Rightarrow> Inl (KeyError k) | Some v \<Rightarrow> Inr v)"

definition get_default :: "doc \<Rightarrow> string \<Rightarrow> json \<Rightarrow> json" where
  \<comment> \<open>\<open>doc.get(key, default)\<close>\<close>
  "get_default d k v0 = (case d k of None \<Rightarrow> v0 | Some v \<Rightarrow> v)"

fun json_lower :: "json \<Rightarrow> error + string" where
  \<comment> \<open>\<open>v.lower()\<close>: only a \<open>str\<close> has the method.\<close>
  "json_lower (JStr s) = Inr (lower s)"
| "json_lower v = Inl AttributeError"

fun json_summary :: "json \<Rightarrow> error + string" where
  \<comment> \<open>\<open>v[:200] + "..."\<close>: \<open>None\<close>, a number and a bool are not subscriptable.\<close>
  "json_summary (JStr s) = Inr (take 200 s @ ''...'')"
| "json_summary v = Inl TypeError"

fun json_number :: "json \<Rightarrow> error + real" where
  \<comment> \<open>The value \<open>v\<close> takes in \<open>v >= 9.0\<close>: a bool counts as 0 or 1, \<open>None\<close> and a
      \<open>str\<close> raise \<open>TypeError\<close>.\<close>
  "json_number (JNum x) = Inr x"
| "json_number (JBool b) = Inr (if b then 1 else 0)"
| "json_number v = Inl TypeError"

definition build_alert :: "doc \<Rightarrow> string \<Rightarrow> real \<Rightarrow> string \<Rightarrow> error + ThreatAlert" where
  \<comment> \<open>The constructor call \<open>ThreatAlert(id=doc["id"], title=doc["title"], ...)\<close> that all
      five checks share; the keyword arguments are evaluated in the order written.\<close>
  "build_alert d sev score action =
     (case getitem d ''id'' of Inl e \<Rightarrow> Inl e | Inr i \<Rightarrow>
     (case getitem d ''title'' of Inl e \<Rightarrow> Inl e | Inr t \<Rightarrow>
     (case getitem d ''source'' of Inl e \<Rightarrow> Inl e | Inr s \<Rightarrow>
     (case getitem d ''published_date'' of Inl e \<Rightarrow> Inl e | Inr p \<Rightarrow>
     (case getitem d ''content'' of Inl e \<Rightarrow> Inl e | Inr c \<Rightarrow>
     (case json_summary c of Inl e \<Rightarrow> Inl e | Inr sm \<Rightarrow>
        Inr \<lparr>alert_id = i, title = t, source = s, severity = sev, cvss_score = score,
             published_date = p, summary = sm, recommended_action = action\<rparr>))))))"

section \<open>The five category checks\<close>

type_synonym search_fn = "string \<Rightarrow> string list \<Rightarrow> string \<Rightarrow> error + response"

definition critical_cvss_threshold :: real where
  \<comment> \<open>Set in \<open>__init__\<close> and never reassigned.\<close>
  "critical_cvss_threshold = 9.0"

fun for_docs :: "(doc \<Rightarrow> error + ThreatAlert option) \<Rightarrow> doc list \<Rightarrow> ThreatAlert list
    \<Rightarrow> error + ThreatAlert list" where
  \<comment> \<open>\<open>for doc in docs: if <test>: alerts.append(<alert>)\<close>; the first exception leaves
      the loop and the function.\<close>
  "for_docs body [] alerts = Inr alerts"
| "for_docs body (d # ds) alerts =
     (case body d of
        Inl e \<Rightarrow> Inl e
      | Inr None \<Rightarrow> for_docs body ds alerts
      | Inr (Some a) \<Rightarrow> for_docs body ds (alerts @ [a]))"

definition results_documents :: "response \<Rightarrow> doc list" where
  \<comment> \<open>\<open>results.get("documents", [])\<close>\<close>
  "results_documents r = (case documents r of None \<Rightarrow> [] | Some ds \<Rightarrow> ds)"

definition critical_vulnerability_doc :: "doc \<Rightarrow> error + ThreatAlert option" where
  "critical_vulnerability_doc d =
     (case json_number (get_default d ''cvss_score'' (JNum 0)) of
        Inl e \<Rightarrow> Inl e
      | Inr cvss \<Rightarrow>
          if cvss \<ge> critical_cvss_threshold
          then (case build_alert d ''CRITICAL'' cvss ''IMMEDIATE patching required'' of
                  Inl e \<Rightarrow> Inl e | Inr a \<Rightarrow> Inr (Some a))
          else Inr None)"

definition check_critical_vulnerabilities :: "search_fn \<Rightarrow> error + ThreatAlert list" where
  "check_critical_vulnerabilities srch =
     (case srch ''critical vulnerability CVSS score 9.0'' [''NVD'', ''CISA'', ''US-CERT'']
             ''last_24_hours'' of
        Inl e \<Rightarrow> Inl e
      | Inr results \<Rightarrow> for_docs critical_vulnerability_doc (results_documents results) [])"

definition emergency_directive_doc :: "doc \<Rightarrow> error + ThreatAlert option" where
  "emergency_directive_doc d =
     (case getitem d ''title'' of Inl e \<Rightarrow> Inl e | Inr t \<Rightarrow>
     (case json_lower t of Inl e \<Rightarrow> Inl e | Inr low \<Rightarrow>
        if str_contains ''emergency'' low
        then (case build_alert d ''EMERGENCY'' 10.0 ''COMPLY immediately - Federal mandate'' of
                Inl e \<Rightarrow> Inl e | Inr a \<Rightarrow> Inr (Some a))
        else Inr None))"

definition check_emergency_directives :: "search_fn \<Rightarrow> error + ThreatAlert list" where
  "check_emergency_directives srch =
     (case srch ''emergency directive immediate action required'' [''CISA'', ''DHS'']
             ''last_48_hours'' of
        Inl e \<Rightarrow> Inl e
      | Inr results \<Rightarrow> for_docs emergency_directive_doc (results_documents results) [])"

definition content_lower :: "doc \<Rightarrow> error + string" where
  \<comment> \<open>\<open>doc["content"].lower()\<close>\<close>
  "content_lower d =
     (case getitem d ''content'' of Inl e \<Rightarrow> Inl e | Inr c \<Rightarrow> json_lower c)"

fun any_keyword :: "doc \<Rightarrow> string list \<Rightarrow> error + bool" where
  \<comment> \<open>\<open>any(keyword in doc["content"].lower() for keyword in keywords)\<close>: the generator
      evaluates \<open>doc["content"].lower()\<close> once per keyword and stops at the first hit.\<close>
  "any_keyword d [] = Inr False"
| "any_keyword d (k # ks) =
     (case content_lower d of
        Inl e \<Rightarrow> Inl e
      | Inr c \<Rightarrow> if str_contains k c then Inr True else any_keyword d ks)"

definition apt_activity_doc :: "doc \<Rightarrow> error + ThreatAlert option" where
  "apt_activity_doc d =
     (case any_keyword d [''apt'', ''nation-state'', ''attribution''] of
        Inl e \<Rightarrow> Inl e
      | Inr hit \<Rightarrow>
          if hit
          then (case build_alert d ''HIGH'' 8.5
                       ''Review threat indicators and enhance monitoring'' of
                  Inl e \<Rightarrow> Inl e | Inr a \<Rightarrow> Inr (Some a))
          else Inr None)"

definition check_apt_activity :: "search_fn \<Rightarrow> error + ThreatAlert list" where
  "check_apt_activity srch =
     (case srch ''advanced persistent threat nation-state attribution campaign''
             [''NSA'', ''FBI'', ''USCYBERCOM''] ''last_72_hours'' of
        Inl e \<Rightarrow> Inl e
      | Inr results \<Rightarrow> for_docs apt_activity_doc (results_documents results) [])"

definition zeroday_activity_doc :: "doc \<Rightarrow> error + ThreatAlert option" where
  "zeroday_activity_doc d =
     (case content_lower d of Inl e \<Rightarrow> Inl e | Inr c \<Rightarrow>
        if str_contains ''zero-day'' c
        then (case build_alert d ''CRITICAL'' 9.5
                     ''URGENT - Implement defensive measures immediately'' of
                Inl e \<Rightarrow> Inl e | Inr a \<Rightarrow> Inr (Some a))
        else Inr None)"

definition check_zeroday_activity :: "search_fn \<Rightarrow> error + ThreatAlert list" where
  "check_zeroday_activity srch =
     (case srch ''zero-day exploit active exploitation in the wild''
             [''FBI'', ''CISA'', ''US-CERT''] ''last_48_hours'' of
        Inl e \<Rightarrow> Inl e
      | Inr results \<Rightarrow> for_docs zeroday_activity_doc (results_documents results) [])"

definition infrastructure_threat_doc :: "doc \<Rightarrow> error + ThreatAlert option" where
  "infrastructure_threat_doc d =
     (case any_keyword d [''energy'', ''water'', ''transportation'', ''manufacturing''] of
        Inl e \<Rightarrow> Inl e
      | Inr hit \<Rightarrow>
          if hit
          then (case build_alert d ''HIGH'' 8.0 ''Coordinate with sector security teams'' of
                  Inl e \<Rightarrow> Inl e | Inr a \<Rightarrow> Inr (Some a))
          else Inr None)"

definition check_infrastructure_threats :: "search_fn \<Rightarrow> error + ThreatAlert list" where
  "check_infrastructure_threats srch =
     (case srch ''critical infrastructure attack energy water transportation''
             [''CISA'', ''DHS'', ''ICS-CERT''] ''last_48_hours'' of
        Inl e \<Rightarrow> Inl e
      | Inr results \<Rightarrow> for_docs infrastructure_threat_doc (results_documents results) [])"

definition mock_search :: "string \<Rightarrow> search_fn" where
  \<comment> \<open>\<open>_mock_search\<close>; the first argument is the text of \<open>datetime.now().isoformat()\<close>.\<close>
  "mock_search now_iso query sources timeframe =
     Inr \<lparr>documents = Some [
            [''id'' \<mapsto> JStr ''MOCK-001'',
             ''title'' \<mapsto> JStr (''Mock threat intelligence for: '' @ take 50 query @ ''...''),
             ''content'' \<mapsto> JStr (''Mock content related to '' @ query @
                ''. This would contain actual government intelligence in production.''),
             ''source'' \<mapsto> JStr (case sources of [] \<Rightarrow> ''MOCK'' | s # ss \<Rightarrow> s),
             ''cvss_score'' \<mapsto> JNum 8.5,
             ''published_date'' \<mapsto> JStr now_iso]],
          total_results = 1\<rparr>"

section \<open>Alert handlers\<close>

definition severity_order :: "string \<rightharpoonup> nat" where
  "severity_order =
     [''EMERGENCY'' \<mapsto> 0, ''CRITICAL'' \<mapsto> 1, ''HIGH'' \<mapsto> 2, ''MEDIUM'' \<mapsto> 3, ''LOW'' \<mapsto> 4]"

definition severity_rank :: "string \<Rightarrow> nat" where
  \<comment> \<open>\<open>severity_order.get(s, 5)\<close>\<close>
  "severity_rank s = (case severity_order s of None \<Rightarrow> 5 | Some n \<Rightarrow> n)"

definition severity_key :: "ThreatAlert \<Rightarrow> nat" where
  \<comment> \<open>\<open>lambda x: severity_order.get(x.severity, 5)\<close>\<close>
  "severity_key x = severity_rank (severity x)"

definition sorted_alerts :: "ThreatAlert list \<Rightarrow> ThreatAlert list" where
  \<comment> \<open>\<open>sorted(alerts, key=...)\<close>: Python's \<open>sorted\<close> is a stable ascending sort on the
      key, as \<open>sort_key\<close> is.\<close>
  "sorted_alerts alerts = sort_key severity_key alerts"

text \<open>
  The default handler prints the batch in sorted order. Its state is the console: the
  alerts of each call, in the order printed.
\<close>

type_synonym console = "ThreatAlert list list"

definition default_alert_handler :: "ThreatAlert list \<Rightarrow> console \<Rightarrow> error option \<times> console" where
  "default_alert_handler alerts out = (None, out @ [sorted_alerts alerts])"

datatype channel = Urgent | Standard | Logged

record CustomAlertHandler =
  alert_history :: "ThreatAlert list"
  notifications :: "(channel \<times> ThreatAlert) list"

definition handle_alert :: "ThreatAlert \<Rightarrow> CustomAlertHandler \<Rightarrow> CustomAlertHandler" where
  \<comment> \<open>The body of the loop of \<open>handle_alerts\<close>.\<close>
  "handle_alert a h =
     (let h1 = h\<lparr>alert_history := alert_history h @ [a]\<rparr>
      in if severity a \<in> set [''EMERGENCY'', ''CRITICAL'']
         then h1\<lparr>notifications := notifications h1 @ [(Urgent, a)]\<rparr>
         else if severity a = ''HIGH''
         then h1\<lparr>notifications := notifications h1 @ [(Standard, a)]\<rparr>
         else h1\<lparr>notifications := notifications h1 @ [(Logged, a)]\<rparr>)"

definition handle_alerts :: "ThreatAlert list \<Rightarrow> CustomAlertHandler
    \<Rightarrow> error option \<times> CustomAlertHandler" where
  "handle_alerts alerts h = (None, foldl (\<lambda>h a. handle_alert a h) h alerts)"

section \<open>The monitoring cycle and the scheduler loop\<close>

text \<open>
  What a run does beyond changing the monitor's fields is recorded in a trace: the start
  of a cycle, each call of the alert callback with its batch, the two messages of the
  loop (\<open>CycleComplete\<close> after a cycle that returned, \<open>CycleFailed\<close> in the \<open>except\<close>
  branch) and each \<open>asyncio.sleep\<close> that was entered, with the seconds requested.
\<close>

datatype event =
    CycleStarted
  | Dispatched "ThreatAlert list"
  | CycleComplete
  | CycleFailed error
  | Slept int

record 'h VeridanoThreatMonitor =
  monitoring_active :: bool
  last_check :: string
  handler :: 'h
  trace :: "event list"

text \<open>
  The world of one loop iteration: the search service the five checks call, the text of
  \<open>datetime.now()\<close> at the end of the cycle, and whether another task calls
  \<open>stop_monitoring\<close> while this one is suspended in the iteration.
\<close>

record world =
  search :: search_fn
  now :: string
  stop_requested :: bool

type_synonym 'h callback = "ThreatAlert list \<Rightarrow> 'h \<Rightarrow> error option \<times> 'h"

definition monitoring_cycle :: "'h callback \<Rightarrow> world \<Rightarrow> 'h VeridanoThreatMonitor
    \<Rightarrow> error option \<times> 'h VeridanoThreatMonitor" where
  "monitoring_cycle cb w m0 =
     (let m = m0\<lparr>trace := trace m0 @ [CycleStarted]\<rparr> in
      case check_critical_vulnerabilities (search w) of Inl e \<Rightarrow> (Some e, m)
      | Inr critical_vulns \<Rightarrow>
     (case check_emergency_directives (search w) of Inl e \<Rightarrow> (Some e, m)
      | Inr emergency_alerts \<Rightarrow>
     (case check_apt_activity (search w) of Inl e \<Rightarrow> (Some e, m)
      | Inr apt_alerts \<Rightarrow>
     (case check_zeroday_activity (search w) of Inl e \<Rightarrow> (Some e, m)
      | Inr zeroday_alerts \<Rightarrow>
     (case check_infrastructure_threats (search w) of Inl e \<Rightarrow> (Some e, m)
      | Inr infra_alerts \<Rightarrow>
        (let alerts = critical_vulns @ emergency_alerts @ apt_alerts @ zeroday_alerts
               @ infra_alerts
         in if alerts \<noteq> []
            then (let m1 = m\<lparr>trace := trace m @ [Dispatched alerts]\<rparr>
                  in (case cb alerts (handler m1) of
                        (Some e, h) \<Rightarrow> (Some e, m1\<lparr>handler := h\<rparr>)
                      | (None, h) \<Rightarrow> (None, m1\<lparr>handler := h, last_check := now w\<rparr>)))
            else (None, m\<lparr>last_check := now w\<rparr>)))))))"

definition stop_monitoring :: "'h VeridanoThreatMonitor \<Rightarrow> 'h VeridanoThreatMonitor" where
  "stop_monitoring m = m\<lparr>monitoring_active := False\<rparr>"

definition float_limit :: int where
  \<comment> \<open>The least \<open>int\<close> that Python does not convert to a \<open>float\<close>: half-way between the
      largest finite double and \<open>2 ** 1024\<close>.\<close>
  "float_limit = 2 ^ 1024 - 2 ^ 970"

definition asyncio_sleep :: "int \<Rightarrow> error option" where
  \<comment> \<open>\<open>await asyncio.sleep(delay)\<close> with an \<open>int\<close> delay: a delay of at most 0 returns at
      once; otherwise the timer is set with \<open>loop.time() + delay\<close>, which raises
      \<open>OverflowError\<close> when the delay does not convert to a \<open>float\<close>.\<close>
  "asyncio_sleep delay =
     (if delay \<le> 0 then None
      else if float_limit \<le> delay then Some OverflowError
      else None)"

definition loop_body :: "'h callback \<Rightarrow> int \<Rightarrow> world \<Rightarrow> 'h VeridanoThreatMonitor
    \<Rightarrow> 'h VeridanoThreatMonitor" where
  \<comment> \<open>The \<open>try\<close>/\<open>except Exception\<close> statement inside the \<open>while\<close> loop. The sleep after
      a completed cycle is inside the \<open>try\<close>, so an exception it raises is handled like
      one of the cycle; \<open>asyncio.sleep(60)\<close> in the \<open>except\<close> branch returns.\<close>
  "loop_body cb interval_minutes w m =
     (let m2 = (case monitoring_cycle cb w m of
                  (None, m1) \<Rightarrow>
                    (case asyncio_sleep (interval_minutes * 60) of
                       None \<Rightarrow>
                         m1\<lparr>trace := trace m1
                              @ [CycleComplete, Slept (interval_minutes * 60)]\<rparr>
                     | Some e \<Rightarrow>
                         m1\<lparr>trace := trace m1 @ [CycleComplete, CycleFailed e, Slept 60]\<rparr>)
                | (Some e, m1) \<Rightarrow>
                    m1\<lparr>trace := trace m1 @ [CycleFailed e, Slept 60]\<rparr>)
      in if stop_requested w then stop_monitoring m2 else m2)"

fun monitoring_loop :: "'h callback \<Rightarrow> int \<Rightarrow> world list \<Rightarrow> 'h VeridanoThreatMonitor
    \<Rightarrow> 'h VeridanoThreatMonitor" where
  \<comment> \<open>\<open>while self.monitoring_active: ...\<close>, run for as many iterations as worlds are
      given; with none left the monitor is returned as it stands, still active.\<close>
  "monitoring_loop cb interval_minutes [] m = m"
| "monitoring_loop cb interval_minutes (w # ws) m =
     (if monitoring_active m
      then monitoring_loop cb interval_minutes ws (loop_body cb interval_minutes w m)
      else m)"


definition new_monitor :: "string \<Rightarrow> 'h \<Rightarrow> 'h VeridanoThreatMonitor" where
  \<comment> \<open>\<open>__init__\<close>: the arguments are the text of \<open>datetime.now() - timedelta(hours=24)\<close>
      and the initial state of the callback's owner.\<close>
  "new_monitor t0 h0 = \<lparr>monitoring_active = False, last_check = t0, handler = h0, trace = []\<rparr>"

definition mock_world :: "string \<Rightarrow> world" where
  "mock_world t = \<lparr>search = mock_search t, now = t, stop_requested = False\<rparr>"

section \<open>Observations on a run\<close>

fun dispatched :: "event list \<Rightarrow> ThreatAlert list list" where
  \<comment> \<open>The batches the alert callback was called with, in order.\<close>
  "dispatched [] = []"
| "dispatched (Dispatched alerts # es) = alerts # dispatched es"
| "dispatched (e # es) = dispatched es"

definition cycle_events :: "'h callback \<Rightarrow> world \<Rightarrow> 'h VeridanoThreatMonitor \<Rightarrow> event list" where
  \<comment> \<open>What one cycle adds to the trace.\<close>
  "cycle_events cb w m = drop (length (trace m)) (trace (snd (monitoring_cycle cb w m)))"

definition category_results :: "search_fn \<Rightarrow> (error + ThreatAlert list) list" where
  \<comment> \<open>The results of the five checks, in the order the cycle awaits them.\<close>
  "category_results srch =
     [check_critical_vulnerabilities srch, check_emergency_directives srch,
      check_apt_activity srch, check_zeroday_activity srch,
      check_infrastructure_threats srch]"

fun gather :: "(error + ThreatAlert list) list \<Rightarrow> error + ThreatAlert list" where
  \<comment> \<open>What a sequence of check results amounts to: the first exception, or with none
      the alerts of all checks, concatenated in order.\<close>
  "gather [] = Inr []"
| "gather (Inl e # rs) = Inl e"
| "gather (Inr alerts # rs) =
     (case gather rs of Inl e \<Rightarrow> Inl e | Inr others \<Rightarrow> Inr (alerts @ others))"

text \<open>
  A Finding of the data model, and the document the search service returns for it: the
  score is optional and travels under the key \<open>cvss_score\<close>.
\<close>

record Finding =
  finding_id :: string
  finding_title :: string
  finding_body :: string
  finding_source :: string
  finding_score :: "real option"
  finding_published :: string

definition doc_of :: "Finding \<Rightarrow> doc" where
  "doc_of f =
     (let d = [''id'' \<mapsto> JStr (finding_id f),
               ''title'' \<mapsto> JStr (finding_title f),
               ''content'' \<mapsto> JStr (finding_body f),
               ''source'' \<mapsto> JStr (finding_source f),
               ''published_date'' \<mapsto> JStr (finding_published f)]
      in case finding_score f of None \<Rightarrow> d | Some x \<Rightarrow> d(''cvss_score'' \<mapsto> JNum x))"

text \<open>
  Containment up to the case of ASCII letters, stated on the original text without
  lower-casing it: \<open>same_letter c p\<close> holds when \<open>c\<close> is \<open>p\<close> or the upper-case form of
  the lower-case ASCII letter \<open>p\<close>.
\<close>

definition same_letter :: "char \<Rightarrow> char \<Rightarrow> bool" where
  "same_letter c p =
     (c = p \<or> (97 \<le> (of_char p :: nat) \<and> (of_char p :: nat) \<le> 122
               \<and> (of_char c :: nat) + 32 = of_char p))"

fun ci_startswith :: "string \<Rightarrow> string \<Rightarrow> bool" where
  "ci_startswith s [] = True"
| "ci_startswith [] (p # ps) = False"
| "ci_startswith (c # cs) (p # ps) = (same_letter c p \<and> ci_startswith cs ps)"

fun ci_contains :: "string \<Rightarrow> string \<Rightarrow> bool" where
  "ci_contains needle [] = (needle = [])"
| "ci_contains needle (c # cs) = (ci_startswith (c # cs) needle \<or> ci_contains needle cs)"

definition lower_ascii :: "string \<Rightarrow> bool" where
  \<comment> \<open>Every character is a lower-case ASCII letter, as in the keyword \<open>emergency\<close>.\<close>
  "lower_ascii s = list_all (\<lambda>p. 97 \<le> (of_char p :: nat) \<and> (of_char p :: nat) \<le> 122) s"

section \<open>Example inputs\<close>

definition scenario_doc :: doc where
  "scenario_doc =
     [''id'' \<mapsto> JStr ''CVE-2024-38063'',
      ''title'' \<mapsto> JStr ''Windows TCP/IP RCE'',
      ''content'' \<mapsto> JStr ''A remote code execution vulnerability exists in Windows TCP/IP'',
      ''source'' \<mapsto> JStr ''NVD'',
      ''cvss_score'' \<mapsto> JNum 9.8,
      ''published_date'' \<mapsto> JStr ''2024-08-13T00:00:00'']"

definition directive_doc :: doc where
  "directive_doc =
     [''id'' \<mapsto> JStr ''X-1'',
      ''title'' \<mapsto> JStr ''CISA Emergency Directive 24-02'',
      ''content'' \<mapsto> JStr ''Mitigate the vulnerability on all federal systems'',
      ''source'' \<mapsto> JStr ''CISA'',
      ''published_date'' \<mapsto> JStr ''2024-01-19T00:00:00'']"

definition zeroday_doc :: doc where
  "zeroday_doc =
     [''id'' \<mapsto> JStr ''CVE-2024-0001'',
      ''title'' \<mapsto> JStr ''Browser engine flaw'',
      ''content'' \<mapsto> JStr ''Zero-day exploit seen in the wild'',
      ''source'' \<mapsto> JStr ''CISA'',
      ''cvss_score'' \<mapsto> JNum 9.0,
      ''published_date'' \<mapsto> JStr ''2024-02-01T00:00:00'']"

definition fixed_search :: "doc list \<Rightarrow> search_fn" where
  \<comment> \<open>A search service that answers every query with the same documents.\<close>
  "fixed_search ds query sources timeframe =
     Inr \<lparr>documents = Some ds, total_results = int (length ds)\<rparr>"

definition apt_down_search :: "string \<Rightarrow> search_fn" where
  \<comment> \<open>The mock service with the APT-activity query failing.\<close>
  "apt_down_search t query sources timeframe =
     (if query = ''advanced persistent threat nation-state attribution campaign''
      then Inl (SearchError ''timed out'')
      else mock_search t query sources timeframe)"

definition fixed_world :: "doc list \<Rightarrow> string \<Rightarrow> world" where
  "fixed_world ds t = \<lparr>search = fixed_search ds, now = t, stop_requested = False\<rparr>"

definition apt_down_world :: "string \<Rightarrow> world" where
  "apt_down_world t = \<lparr>search = apt_down_search t, now = t, stop_requested = False\<rparr>"

definition plain_alert :: "string \<Rightarrow> real \<Rightarrow> ThreatAlert" where
  "plain_alert sev score =
     \<lparr>alert_id = JStr ''A'', title = JStr ''t'', source = JStr ''s'', severity = sev,
      cvss_score = score, published_date = JStr ''d'', summary = ''...'',
      recommended_action = ''none''\<rparr>"

definition scenario_alert :: ThreatAlert where
  "scenario_alert =
     \<lparr>alert_id = JStr ''CVE-2024-38063'', title = JStr ''Windows TCP/IP RCE'',
      source = JStr ''NVD'', severity = ''CRITICAL'', cvss_score = 9.8,
      published_date = JStr ''2024-08-13T00:00:00'',
      summary = ''A remote code execution vulnerability exists in Windows TCP/IP...'',
      recommended_action = ''IMMEDIATE patching required''\<rparr>"

definition directive_alert :: ThreatAlert where
  "directive_alert =
     \<lparr>alert_id = JStr ''X-1'', title = JStr ''CISA Emergency Directive 24-02'',
      source = JStr ''CISA'', severity = ''EMERGENCY'', cvss_score = 10.0,
      published_date = JStr ''2024-01-19T00:00:00'',
      summary = ''Mitigate the vulnerability on all federal systems...'',
      recommended_action = ''COMPLY immediately - Federal mandate''\<rparr>"

definition scenario_finding :: Finding where
  "scenario_finding =
     \<lparr>finding_id = ''CVE-2024-38063'', finding_title = ''Windows TCP/IP RCE'',
      finding_body = ''A remote code execution vulnerability exists in Windows TCP/IP'',
      finding_source = ''NVD'', finding_score = Some 9.8,
      finding_published = ''2024-08-13T00:00:00''\<rparr>"

definition directive_finding :: Finding where
  "directive_finding =
     \<lparr>finding_id = ''X-1'', finding_title = ''CISA Emergency Directive 24-02'',
      finding_body = ''Mitigate the vulnerability on all federal systems'',
      finding_source = ''CISA'', finding_score = None,
      finding_published = ''2024-01-19T00:00:00''\<rparr>"

definition low_score_finding :: Finding where
  "low_score_finding =
     \<lparr>finding_id = ''CVE-2024-0002'', finding_title = ''Emergency patch for a minor flaw'',
      finding_body = ''Local information disclosure'',
      finding_source = ''NVD'', finding_score = Some 8.9,
      finding_published = ''2024-03-01T00:00:00''\<rparr>"

definition record_calls :: "ThreatAlert list list callback" where
  \<comment> \<open>A callback that keeps the batch of every call it receives.\<close>
  "record_calls alerts calls = (None, calls @ [alerts])"

definition findings :: "doc list" where
  "findings = [scenario_doc, directive_doc]"

definition empty_history :: CustomAlertHandler where
  "empty_history = \<lparr>alert_history = [], notifications = []\<rparr>"

definition running_monitor :: "CustomAlertHandler VeridanoThreatMonitor" where
  "running_monitor = (new_monitor ''T0'' empty_history)\<lparr>monitoring_active := True\<rparr>"

section \<open>Facts about strings and alert construction\<close>

lemma build_alert_ok:
  assumes "d ''id'' = Some i" "d ''title'' = Some t" "d ''source'' = Some s"
    "d ''published_date'' = Some p" "d ''content'' = Some (JStr c)"
  shows "build_alert d sev score action =
    Inr \<lparr>alert_id = i, title = t, source = s, severity = sev, cvss_score = score,
         published_date = p, summary = take 200 c @ ''...'', recommended_action = action\<rparr>"
  using assms by (simp add: build_alert_def getitem_def)

lemma build_alert_summary:
  assumes "build_alert d sev score action = Inr a"
  shows "\<exists>c. d ''content'' = Some (JStr c) \<and> summary a = take 200 c @ ''...''"
proof -
  from assms obtain v where v: "d ''content'' = Some v" and s: "json_summary v = Inr (summary a)"
    by (auto simp: build_alert_def getitem_def split: option.splits sum.splits)
  from s obtain c where "v = JStr c" "summary a = take 200 c @ ''...''"
    by (cases v) auto
  with v show ?thesis by simp
qed

lemma for_docs_all_return:
  assumes "\<And>d. d \<in> set ds \<Longrightarrow> body d = Inr (f d)"
  shows "for_docs body ds alerts = Inr (alerts @ List.map_filter f ds)"
  using assms
proof (induction ds arbitrary: alerts)
  case Nil
  then show ?case by (simp add: List.map_filter_simps)
next
  case (Cons d ds)
  have "body d = Inr (f d)"
    using Cons.prems by simp
  moreover have "for_docs body ds acc = Inr (acc @ List.map_filter f ds)" for acc
    using Cons.prems by (intro Cons.IH) simp
  ultimately show ?case
    by (cases "f d") (simp_all add: List.map_filter_simps)
qed

lemma non_numeric_cvss_score_raises:
  "d ''cvss_score'' = Some JNull \<or> d ''cvss_score'' = Some (JStr s) \<Longrightarrow>
     critical_vulnerability_doc d = Inl TypeError"
  by (auto simp: critical_vulnerability_doc_def get_default_def)

lemma of_char_lower_char:
  "(of_char (lower_char c) :: nat) =
     (let n = of_char c
      in if (65 \<le> n \<and> n \<le> 90) \<or> (192 \<le> n \<and> n \<le> 222 \<and> n \<noteq> 215) then n + 32 else n)"
proof -
  have "(of_char c :: nat) < 256" by simp
  then show ?thesis
    by (auto simp: lower_char_def Let_def)
qed

lemma lower_char_eq_iff:
  assumes "97 \<le> (of_char p :: nat)" "(of_char p :: nat) \<le> 122"
  shows "lower_char c = p \<longleftrightarrow> same_letter c p"
proof -
  have "lower_char c = p \<longleftrightarrow> (of_char (lower_char c) :: nat) = of_char p"
    by simp
  also have "\<dots> \<longleftrightarrow> (of_char c :: nat) = of_char p \<or> (of_char c :: nat) + 32 = of_char p"
    using assms by (auto simp: of_char_lower_char Let_def)
  also have "\<dots> \<longleftrightarrow> same_letter c p"
    using assms by (simp add: same_letter_def)
  finally show ?thesis .
qed

lemma startswith_lower:
  "lower_ascii needle \<Longrightarrow> startswith (lower s) needle = ci_startswith s needle"
proof (induction s needle rule: ci_startswith.induct)
  case (3 c cs p ps)
  then show ?case
    by (simp add: lower_def lower_ascii_def lower_char_eq_iff)
qed (simp_all add: lower_def)

lemma str_contains_lower:
  "lower_ascii needle \<Longrightarrow> str_contains needle (lower s) = ci_contains needle s"
proof (induction s)
  case Nil
  then show ?case by (simp add: lower_def)
next
  case (Cons c cs)
  have "startswith (lower (c # cs)) needle = ci_startswith (c # cs) needle"
    using Cons.prems by (rule startswith_lower)
  moreover have "str_contains needle (lower cs) = ci_contains needle cs"
    using Cons by simp
  ultimately show ?case
    by (simp add: lower_def)
qed

lemma startswith_prefix: "startswith s needle \<longleftrightarrow> prefix needle s"
  by (induction s needle rule: startswith.induct) auto

lemma str_contains_sublist: "str_contains needle hay \<longleftrightarrow> sublist needle hay"
  by (induction hay) (simp_all add: startswith_prefix sublist_Cons_right)

lemma lower_ascii_emergency: "lower_ascii ''emergency''"
  by (simp add: lower_ascii_def)

section \<open>Classification rules\<close>

lemma emergency_directive_doc_rule:
  assumes "d ''id'' = Some i" "d ''title'' = Some (JStr t)" "d ''source'' = Some s"
    "d ''published_date'' = Some p" "d ''content'' = Some (JStr c)"
  shows "emergency_directive_doc d =
    Inr (if ci_contains ''emergency'' t
         then Some \<lparr>alert_id = i, title = JStr t, source = s, severity = ''EMERGENCY'',
                    cvss_score = 10.0, published_date = p, summary = take 200 c @ ''...'',
                    recommended_action = ''COMPLY immediately - Federal mandate''\<rparr>
         else None)"
  using assms(2) build_alert_ok [OF assms]
    str_contains_lower [OF lower_ascii_emergency, of t]
  by (simp add: emergency_directive_doc_def getitem_def)

lemma critical_vulnerability_doc_rule:
  assumes "d ''id'' = Some i" "d ''title'' = Some t" "d ''source'' = Some s"
    "d ''published_date'' = Some p" "d ''content'' = Some (JStr c)"
    "d ''cvss_score'' = Some (JNum x)"
  shows "critical_vulnerability_doc d =
    Inr (if x \<ge> 9.0
         then Some \<lparr>alert_id = i, title = t, source = s, severity = ''CRITICAL'',
                    cvss_score = x, published_date = p, summary = take 200 c @ ''...'',
                    recommended_action = ''IMMEDIATE patching required''\<rparr>
         else None)"
  using assms(6) build_alert_ok [OF assms(1-5)]
  by (simp add: critical_vulnerability_doc_def get_default_def critical_cvss_threshold_def)

lemma doc_of_fields:
  "doc_of f ''id'' = Some (JStr (finding_id f))"
  "doc_of f ''title'' = Some (JStr (finding_title f))"
  "doc_of f ''content'' = Some (JStr (finding_body f))"
  "doc_of f ''source'' = Some (JStr (finding_source f))"
  "doc_of f ''published_date'' = Some (JStr (finding_published f))"
  "doc_of f ''cvss_score'' = map_option JNum (finding_score f)"
  by (simp_all add: doc_of_def Let_def split: option.splits)

lemma emergency_directive_finding:
  "emergency_directive_doc (doc_of f) =
     Inr (if ci_contains ''emergency'' (finding_title f)
          then Some \<lparr>alert_id = JStr (finding_id f), title = JStr (finding_title f),
                     source = JStr (finding_source f), severity = ''EMERGENCY'',
                     cvss_score = 10.0, published_date = JStr (finding_published f),
                     summary = take 200 (finding_body f) @ ''...'',
                     recommended_action = ''COMPLY immediately - Federal mandate''\<rparr>
          else None)"
  by (rule emergency_directive_doc_rule) (rule doc_of_fields)+

lemma critical_vulnerability_finding:
  "critical_vulnerability_doc (doc_of f) =
     Inr (if (case finding_score f of None \<Rightarrow> False | Some x \<Rightarrow> x \<ge> 9.0)
          then Some \<lparr>alert_id = JStr (finding_id f), title = JStr (finding_title f),
                     source = JStr (finding_source f), severity = ''CRITICAL'',
                     cvss_score = (case finding_score f of None \<Rightarrow> 0 | Some x \<Rightarrow> x),
                     published_date = JStr (finding_published f),
                     summary = take 200 (finding_body f) @ ''...'',
                     recommended_action = ''IMMEDIATE patching required''\<rparr>
          else None)"
proof (cases "finding_score f")
  case None
  then have "doc_of f ''cvss_score'' = None"
    by (simp add: doc_of_fields)
  with None show ?thesis
    by (simp add: critical_vulnerability_doc_def get_default_def critical_cvss_threshold_def)
next
  case (Some x)
  then have "doc_of f ''cvss_score'' = Some (JNum x)"
    by (simp add: doc_of_fields)
  from critical_vulnerability_doc_rule [OF doc_of_fields(1,2,4,5,3) this] Some
  show ?thesis by simp
qed

lemma for_docs_findings:
  assumes "\<And>f. body (doc_of f) = Inr (if q f then Some (mk f) else None)"
  shows "for_docs body (map doc_of fs) alerts = Inr (alerts @ map mk (filter q fs))"
  by (induction fs arbitrary: alerts) (simp_all add: assms)

lemma malformed_sibling_aborts_check:
  "check_emergency_directives (fixed_search [directive_doc, Map.empty])
     = Inl (KeyError ''title'')"
  by code_simp

text \<open>
  C5. When the emergency-directive query returns the documents of the Findings \<open>fs\<close>, the
  check returns one alert for each Finding whose title contains \<open>emergency\<close> up to the
  case of the letters, and for no other, in the order of the Findings; every alert has
  severity EMERGENCY and score 10.0, whatever score the Finding has or lacks.
\<close>

theorem emergency_directives_check:
  assumes "srch ''emergency directive immediate action required'' [''CISA'', ''DHS'']
             ''last_48_hours''
           = Inr \<lparr>documents = Some (map doc_of fs), total_results = n\<rparr>"
  shows "check_emergency_directives srch =
    Inr (map (\<lambda>f. \<lparr>alert_id = JStr (finding_id f), title = JStr (finding_title f),
                     source = JStr (finding_source f), severity = ''EMERGENCY'',
                     cvss_score = 10.0, published_date = JStr (finding_published f),
                     summary = take 200 (finding_body f) @ ''...'',
                     recommended_action = ''COMPLY immediately - Federal mandate''\<rparr>)
           (filter (\<lambda>f. ci_contains ''emergency'' (finding_title f)) fs))"
proof -
  have "for_docs emergency_directive_doc (map doc_of fs) [] =
    Inr ([] @ map (\<lambda>f. \<lparr>alert_id = JStr (finding_id f), title = JStr (finding_title f),
                     source = JStr (finding_source f), severity = ''EMERGENCY'',
                     cvss_score = 10.0, published_date = JStr (finding_published f),
                     summary = take 200 (finding_body f) @ ''...'',
                     recommended_action = ''COMPLY immediately - Federal mandate''\<rparr>)
           (filter (\<lambda>f. ci_contains ''emergency'' (finding_title f)) fs))"
    by (rule for_docs_findings) (rule emergency_directive_finding)
  with assms show ?thesis
    by (simp add: check_emergency_directives_def results_documents_def)
qed

theorem emergency_directives_check_witness:
  "check_emergency_directives
     (fixed_search (map doc_of [scenario_finding, directive_finding, low_score_finding]))
   = Inr [directive_alert,
          \<lparr>alert_id = JStr ''CVE-2024-0002'',
           title = JStr ''Emergency patch for a minor flaw'', source = JStr ''NVD'',
           severity = ''EMERGENCY'', cvss_score = 10.0,
           published_date = JStr ''2024-03-01T00:00:00'',
           summary = ''Local information disclosure...'',
           recommended_action = ''COMPLY immediately - Federal mandate''\<rparr>]"
proof -
  have h: "fixed_search (map doc_of [scenario_finding, directive_finding, low_score_finding])
             ''emergency directive immediate action required'' [''CISA'', ''DHS'']
             ''last_48_hours''
           = Inr \<lparr>documents = Some (map doc_of
                    [scenario_finding, directive_finding, low_score_finding]),
                  total_results = 3\<rparr>"
    by (simp add: fixed_search_def)
  show ?thesis
    using h emergency_directives_check [where
        srch = "fixed_search (map doc_of [scenario_finding, directive_finding, low_score_finding])"
        and fs = "[scenario_finding, directive_finding, low_score_finding]" and n = 3]
    by (simp add: scenario_finding_def directive_finding_def low_score_finding_def
        directive_alert_def same_letter_def)
qed

text \<open>
  C6. When the critical-vulnerability query returns the documents of the Findings \<open>fs\<close>,
  the check returns one alert for each Finding whose score is at least 9.0, and for no
  other, in the order of the Findings; every alert has severity CRITICAL, carries the
  Finding's score unchanged and recommends \<open>IMMEDIATE patching required\<close>.
\<close>

theorem critical_vulnerabilities_check:
  assumes "srch ''critical vulnerability CVSS score 9.0'' [''NVD'', ''CISA'', ''US-CERT'']
             ''last_24_hours''
           = Inr \<lparr>documents = Some (map doc_of fs), total_results = n\<rparr>"
  shows "check_critical_vulnerabilities srch =
    Inr (map (\<lambda>f. \<lparr>alert_id = JStr (finding_id f), title = JStr (finding_title f),
                     source = JStr (finding_source f), severity = ''CRITICAL'',
                     cvss_score = (case finding_score f of None \<Rightarrow> 0 | Some x \<Rightarrow> x),
                     published_date = JStr (finding_published f),
                     summary = take 200 (finding_body f) @ ''...'',
                     recommended_action = ''IMMEDIATE patching required''\<rparr>)
           (filter (\<lambda>f. case finding_score f of None \<Rightarrow> False | Some x \<Rightarrow> x \<ge> 9.0) fs))"
proof -
  have "for_docs critical_vulnerability_doc (map doc_of fs) [] =
    Inr ([] @ map (\<lambda>f. \<lparr>alert_id = JStr (finding_id f), title = JStr (finding_title f),
                     source = JStr (finding_source f), severity = ''CRITICAL'',
                     cvss_score = (case finding_score f of None \<Rightarrow> 0 | Some x \<Rightarrow> x),
                     published_date = JStr (finding_published f),
                     summary = take 200 (finding_body f) @ ''...'',
                     recommended_action = ''IMMEDIATE patching required''\<rparr>)
           (filter (\<lambda>f. case finding_score f of None \<Rightarrow> False | Some x \<Rightarrow> x \<ge> 9.0) fs))"
    by (rule for_docs_findings) (rule critical_vulnerability_finding)
  with assms show ?thesis
    by (simp add: check_critical_vulnerabilities_def results_documents_def)
qed

theorem critical_vulnerabilities_check_witness:
  "check_critical_vulnerabilities
     (fixed_search (map doc_of [low_score_finding, scenario_finding, directive_finding]))
   = Inr [scenario_alert]"
proof -
  have h: "fixed_search (map doc_of [low_score_finding, scenario_finding, directive_finding])
             ''critical vulnerability CVSS score 9.0'' [''NVD'', ''CISA'', ''US-CERT'']
             ''last_24_hours''
           = Inr \<lparr>documents = Some (map doc_of
                    [low_score_finding, scenario_finding, directive_finding]),
                  total_results = 3\<rparr>"
    by (simp add: fixed_search_def)
  show ?thesis
    using h critical_vulnerabilities_check [where
        srch = "fixed_search (map doc_of [low_score_finding, scenario_finding, directive_finding])"
        and fs = "[low_score_finding, scenario_finding, directive_finding]" and n = 3]
    by (simp add: scenario_finding_def directive_finding_def low_score_finding_def
        scenario_alert_def)
qed

text \<open>
  C10. A document without the key \<open>cvss_score\<close> is given the score 0 by
  \<open>doc.get("cvss_score", 0)\<close>: the critical-vulnerability check produces no alert for it
  and raises nothing, whatever else the document holds or lacks.
\<close>

theorem missing_cvss_score_is_zero:
  assumes "d ''cvss_score'' = None"
  shows "get_default d ''cvss_score'' (JNum 0) = JNum 0
       \<and> critical_vulnerability_doc d = Inr None
       \<and> for_docs critical_vulnerability_doc [d] alerts = Inr alerts"
  using assms
  by (simp add: critical_vulnerability_doc_def get_default_def critical_cvss_threshold_def)

theorem missing_cvss_score_is_zero_witness:
  "directive_doc ''cvss_score'' = None
   \<and> critical_vulnerability_doc directive_doc = Inr None
   \<and> for_docs critical_vulnerability_doc [directive_doc] [] = Inr []"
  using missing_cvss_score_is_zero [of directive_doc "[]"]
  by (simp add: directive_doc_def)

lemma summary_critical:
  "critical_vulnerability_doc d = Inr (Some a) \<Longrightarrow>
     \<exists>c. d ''content'' = Some (JStr c) \<and> summary a = take 200 c @ ''...''"
  unfolding critical_vulnerability_doc_def
  by (simp split: sum.splits if_splits) (erule build_alert_summary)

lemma summary_emergency:
  "emergency_directive_doc d = Inr (Some a) \<Longrightarrow>
     \<exists>c. d ''content'' = Some (JStr c) \<and> summary a = take 200 c @ ''...''"
  unfolding emergency_directive_doc_def
  by (simp split: sum.splits if_splits) (erule build_alert_summary)

lemma summary_apt:
  "apt_activity_doc d = Inr (Some a) \<Longrightarrow>
     \<exists>c. d ''content'' = Some (JStr c) \<and> summary a = take 200 c @ ''...''"
  unfolding apt_activity_doc_def
  by (simp split: sum.splits if_splits del: any_keyword.simps) (erule build_alert_summary)

lemma summary_zeroday:
  "zeroday_activity_doc d = Inr (Some a) \<Longrightarrow>
     \<exists>c. d ''content'' = Some (JStr c) \<and> summary a = take 200 c @ ''...''"
  unfolding zeroday_activity_doc_def
  by (simp split: sum.splits if_splits) (erule build_alert_summary)

lemma summary_infrastructure:
  "infrastructure_threat_doc d = Inr (Some a) \<Longrightarrow>
     \<exists>c. d ''content'' = Some (JStr c) \<and> summary a = take 200 c @ ''...''"
  unfolding infrastructure_threat_doc_def
  by (simp split: sum.splits if_splits del: any_keyword.simps) (erule build_alert_summary)

text \<open>
  C3 (as the code has it). Whatever category rule produces an alert, its summary is the
  first 200 characters of the document's content followed by \<open>...\<close>; the marker is
  appended to a short content as well.
\<close>

theorem summary_always_marked:
  assumes "body \<in> {critical_vulnerability_doc, emergency_directive_doc, apt_activity_doc,
                    zeroday_activity_doc, infrastructure_threat_doc}"
    and "body d = Inr (Some a)"
  shows "\<exists>c. d ''content'' = Some (JStr c) \<and> summary a = take 200 c @ ''...''"
  using assms summary_critical summary_emergency summary_apt summary_zeroday
    summary_infrastructure
  by blast

theorem summary_always_marked_witness:
  "\<exists>c. scenario_doc ''content'' = Some (JStr c) \<and> summary scenario_alert = take 200 c @ ''...''"
proof -
  have h: "critical_vulnerability_doc scenario_doc = Inr (Some scenario_alert)"
    by code_simp
  show ?thesis
    using summary_always_marked [of critical_vulnerability_doc scenario_doc scenario_alert] h
    by simp
qed

text \<open>
  The content of the scenario document has 62 characters and its summary is not the
  content unchanged.
\<close>

theorem summary_counterexample:
  "scenario_doc ''content''
     = Some (JStr ''A remote code execution vulnerability exists in Windows TCP/IP'')
   \<and> length ''A remote code execution vulnerability exists in Windows TCP/IP'' \<le> 200
   \<and> map_sum id (map_option summary) (critical_vulnerability_doc scenario_doc)
       = Inr (Some ''A remote code execution vulnerability exists in Windows TCP/IP...'')"
  by code_simp

section \<open>The monitoring cycle\<close>

lemma dispatched_append: "dispatched (es @ fs) = dispatched es @ dispatched fs"
  by (induction es rule: dispatched.induct) simp_all

lemma cycle_raises:
  assumes "check_critical_vulnerabilities (search w) = Inl e
     \<or> (\<exists>a1. check_critical_vulnerabilities (search w) = Inr a1 \<and>
          (check_emergency_directives (search w) = Inl e
     \<or> (\<exists>a2. check_emergency_directives (search w) = Inr a2 \<and>
          (check_apt_activity (search w) = Inl e
     \<or> (\<exists>a3. check_apt_activity (search w) = Inr a3 \<and>
          (check_zeroday_activity (search w) = Inl e
     \<or> (\<exists>a4. check_zeroday_activity (search w) = Inr a4 \<and>
          check_infrastructure_threats (search w) = Inl e)))))))"
  shows "monitoring_cycle cb w m = (Some e, m\<lparr>trace := trace m @ [CycleStarted]\<rparr>)"
  using assms by (auto simp: monitoring_cycle_def Let_def)

lemma loop_body_raises:
  assumes "monitoring_cycle cb w m = (Some e, m1)"
  shows "trace (loop_body cb interval_minutes w m) = trace m1 @ [CycleFailed e, Slept 60]"
  using assms by (simp add: loop_body_def stop_monitoring_def Let_def)

lemma cycle_events_only_search:
  "cycle_events cb' (w\<lparr>now := t\<rparr>) m' = cycle_events cb w m"
  by (simp add: cycle_events_def monitoring_cycle_def Let_def
      split: sum.splits prod.splits option.splits)

lemma handle_alerts_history:
  "alert_history (foldl (\<lambda>h a. handle_alert a h) h alerts) = alert_history h @ alerts"
  by (induction alerts arbitrary: h) (simp_all add: handle_alert_def Let_def)

lemma severity_ranks:
  "map severity_rank [''EMERGENCY'', ''CRITICAL'', ''HIGH'', ''MEDIUM'', ''LOW''] = [0, 1, 2, 3, 4]"
  by (simp add: severity_rank_def severity_order_def)

lemma mock_cycle_batch:
  "map (map (\<lambda>a. (alert_id a, severity a, cvss_score a)))
     (dispatched (cycle_events default_alert_handler (mock_world ''T1'') (new_monitor ''T0'' [])))
   = [[(JStr ''MOCK-001'', ''EMERGENCY'', 10.0), (JStr ''MOCK-001'', ''HIGH'', 8.5),
       (JStr ''MOCK-001'', ''CRITICAL'', 9.5), (JStr ''MOCK-001'', ''HIGH'', 8.0)]]"
  by code_simp

text \<open>
  C9 (as the code has it). In a cycle in which the five checks return, the callback is
  applied exactly once, to the concatenation of their alerts and the handler's state, when
  that batch is non-empty, and the cycle's outcome and the new handler state are the
  callback's; with an empty batch the callback is not applied and the handler's state
  stays. In a cycle in which a check raises the callback is not applied either, whatever
  alerts the earlier checks produced.
\<close>

theorem callback_applied_once_to_full_batch:
  "(case gather (category_results (search w)) of
      Inl e \<Rightarrow>
        fst (monitoring_cycle cb w m) = Some e
        \<and> handler (snd (monitoring_cycle cb w m)) = handler m
        \<and> dispatched (cycle_events cb w m) = []
    | Inr alerts \<Rightarrow>
        if alerts = []
        then fst (monitoring_cycle cb w m) = None
           \<and> handler (snd (monitoring_cycle cb w m)) = handler m
           \<and> dispatched (cycle_events cb w m) = []
        else fst (monitoring_cycle cb w m) = fst (cb alerts (handler m))
           \<and> handler (snd (monitoring_cycle cb w m)) = snd (cb alerts (handler m))
           \<and> dispatched (cycle_events cb w m) = [alerts])"
  by (simp add: category_results_def monitoring_cycle_def cycle_events_def Let_def
      split: sum.splits prod.splits option.splits)

theorem callback_applied_once_to_full_batch_witness:
  "handler (snd (monitoring_cycle record_calls (fixed_world findings ''T1'')
      (new_monitor ''T0'' [])))
   = [[scenario_alert, directive_alert]]"
proof -
  have g: "gather (category_results (search (fixed_world findings ''T1'')))
             = Inr [scenario_alert, directive_alert]"
    by code_simp
  show ?thesis
    using callback_applied_once_to_full_batch [where w = "fixed_world findings ''T1''"
        and cb = record_calls and m = "new_monitor ''T0'' []"]
    by (simp add: g record_calls_def new_monitor_def)
qed

text \<open>
  With the APT-activity query failing, the cycle has produced an EMERGENCY alert, and the
  recording callback has received no call.
\<close>

theorem callback_counterexample:
  "map severity (projr (check_emergency_directives (search (apt_down_world ''T1''))))
     = [''EMERGENCY'']
   \<and> handler (snd (monitoring_cycle record_calls (apt_down_world ''T1'')
        (new_monitor ''T0'' []))) = []"
  by code_simp

text \<open>
  C2 (as the code has it). The cycle has no handler of its own: when a category check
  raises after the earlier ones returned, the exception leaves the cycle, nothing is
  dispatched and \<open>last_check\<close> keeps its value; the scheduler loop catches it and sleeps
  60 seconds.
\<close>

theorem category_failure_propagates:
  assumes "[check_critical_vulnerabilities (search w), check_emergency_directives (search w),
            check_apt_activity (search w), check_zeroday_activity (search w),
            check_infrastructure_threats (search w)] = map Inr ok @ Inl e # rest"
  shows "monitoring_cycle cb w m = (Some e, m\<lparr>trace := trace m @ [CycleStarted]\<rparr>)
    \<and> trace (loop_body cb interval_minutes w m)
        = trace m @ [CycleStarted, CycleFailed e, Slept 60]"
proof -
  have c: "monitoring_cycle cb w m = (Some e, m\<lparr>trace := trace m @ [CycleStarted]\<rparr>)"
  proof (rule cycle_raises)
    show "check_critical_vulnerabilities (search w) = Inl e
     \<or> (\<exists>a1. check_critical_vulnerabilities (search w) = Inr a1 \<and>
          (check_emergency_directives (search w) = Inl e
     \<or> (\<exists>a2. check_emergency_directives (search w) = Inr a2 \<and>
          (check_apt_activity (search w) = Inl e
     \<or> (\<exists>a3. check_apt_activity (search w) = Inr a3 \<and>
          (check_zeroday_activity (search w) = Inl e
     \<or> (\<exists>a4. check_zeroday_activity (search w) = Inr a4 \<and>
          check_infrastructure_threats (search w) = Inl e)))))))"
      using assms by (auto simp: Cons_eq_append_conv Cons_eq_map_conv)
  qed
  from loop_body_raises [OF c] c show ?thesis by simp
qed

theorem category_failure_propagates_witness:
  "monitoring_cycle handle_alerts (apt_down_world ''T1'') (new_monitor ''T0'' empty_history)
     = (Some (SearchError ''timed out''), new_monitor ''T0'' empty_history\<lparr>trace := [CycleStarted]\<rparr>)
   \<and> trace (loop_body handle_alerts 15 (apt_down_world ''T1'') (new_monitor ''T0'' empty_history))
     = [CycleStarted, CycleFailed (SearchError ''timed out''), Slept 60]"
proof -
  have h: "[check_critical_vulnerabilities (search (apt_down_world ''T1'')),
            check_emergency_directives (search (apt_down_world ''T1'')),
            check_apt_activity (search (apt_down_world ''T1'')),
            check_zeroday_activity (search (apt_down_world ''T1'')),
            check_infrastructure_threats (search (apt_down_world ''T1''))]
     = map Inr [projr (check_critical_vulnerabilities (search (apt_down_world ''T1''))),
                projr (check_emergency_directives (search (apt_down_world ''T1'')))]
       @ Inl (SearchError ''timed out'')
       # [check_zeroday_activity (search (apt_down_world ''T1'')),
          check_infrastructure_threats (search (apt_down_world ''T1''))]"
    by code_simp
  show ?thesis
    using category_failure_propagates [OF h, of handle_alerts "new_monitor ''T0'' empty_history" 15]
    by (simp add: new_monitor_def)
qed

text \<open>
  With the APT-activity query failing, the emergency-directive check still found an alert,
  but the cycle raises and dispatches nothing.
\<close>

theorem category_failure_counterexample:
  "check_emergency_directives (search (apt_down_world ''T1'')) \<noteq> Inr []
   \<and> check_apt_activity (search (apt_down_world ''T1'')) = Inl (SearchError ''timed out'')
   \<and> fst (monitoring_cycle handle_alerts (apt_down_world ''T1'') (new_monitor ''T0'' empty_history))
       = Some (SearchError ''timed out'')
   \<and> dispatched (trace (snd (monitoring_cycle handle_alerts (apt_down_world ''T1'')
        (new_monitor ''T0'' empty_history)))) = []"
  by code_simp

text \<open>
  C1 (as the code has it). A cycle keeps no record of what it dispatched: what it adds to
  the trace depends on the search results alone, so a later cycle on the same results
  dispatches the same batch again, whatever the monitor's state and the time. The custom
  handler only appends every alert it receives to its history.
\<close>

theorem no_deduplication:
  "cycle_events cb' (w\<lparr>now := t\<rparr>) m' = cycle_events cb w m
   \<and> fst (handle_alerts alerts h) = None
   \<and> alert_history (snd (handle_alerts alerts h)) = alert_history h @ alerts"
  by (simp add: cycle_events_only_search handle_alerts_def handle_alerts_history)

theorem no_deduplication_witness:
  "cycle_events handle_alerts ((fixed_world findings ''T1'')\<lparr>now := ''T2''\<rparr>)
      (snd (monitoring_cycle handle_alerts (fixed_world findings ''T1'') running_monitor))
     = cycle_events handle_alerts (fixed_world findings ''T1'') running_monitor"
  using no_deduplication [where cb' = handle_alerts and cb = handle_alerts
      and w = "fixed_world findings ''T1''" and t = "''T2''" and m = running_monitor
      and m' = "snd (monitoring_cycle handle_alerts (fixed_world findings ''T1'')
                  running_monitor)"
      and alerts = "[]" and h = empty_history]
  by simp

text \<open>Two cycles on the same two documents: both dispatch the same two identifiers.\<close>

theorem no_deduplication_counterexample:
  "map (map alert_id) (dispatched (trace (snd
      (monitoring_cycle handle_alerts (fixed_world findings ''T2'')
        (snd (monitoring_cycle handle_alerts (fixed_world findings ''T1'')
          (new_monitor ''T0'' empty_history)))))))
   = [[JStr ''CVE-2024-38063'', JStr ''X-1''], [JStr ''CVE-2024-38063'', JStr ''X-1'']]"
  by code_simp

text \<open>
  C4 (as the code has it). The default handler prints each batch in ascending order of
  the severity key, which is 0 for EMERGENCY, 1 for CRITICAL, 2 for HIGH, 3 for MEDIUM,
  4 for LOW and 5 for any other severity; the sort is stable, so alerts of one severity
  keep the order of the batch and the score plays no part. The severities HIGH,
  EMERGENCY, LOW, CRITICAL are printed as EMERGENCY, CRITICAL, HIGH, LOW.
\<close>

theorem display_sorted_by_severity_only:
  "default_alert_handler alerts out = (None, out @ [sorted_alerts alerts])
   \<and> sorted (map severity_key (sorted_alerts alerts))
   \<and> mset (sorted_alerts alerts) = mset alerts
   \<and> filter (\<lambda>a. severity_key a = k) (sorted_alerts alerts)
       = filter (\<lambda>a. severity_key a = k) alerts
   \<and> severity_key a =
       (if severity a = ''EMERGENCY'' then 0 else if severity a = ''CRITICAL'' then 1
        else if severity a = ''HIGH'' then 2 else if severity a = ''MEDIUM'' then 3
        else if severity a = ''LOW'' then 4 else 5)
   \<and> map severity_rank [''EMERGENCY'', ''CRITICAL'', ''HIGH'', ''MEDIUM'', ''LOW'']
       = [0, 1, 2, 3, 4]
   \<and> map severity (sorted_alerts [plain_alert ''HIGH'' 7.5, plain_alert ''EMERGENCY'' 10.0,
                                   plain_alert ''LOW'' 2.0, plain_alert ''CRITICAL'' 9.1])
       = [''EMERGENCY'', ''CRITICAL'', ''HIGH'', ''LOW'']"
proof -
  have handler: "default_alert_handler alerts out = (None, out @ [sorted_alerts alerts])"
    by (simp add: default_alert_handler_def)
  have ordered: "sorted (map severity_key (sorted_alerts alerts))"
    by (simp add: sorted_alerts_def)
  have same: "mset (sorted_alerts alerts) = mset alerts"
    by (simp add: sorted_alerts_def)
  have stable: "filter (\<lambda>a. severity_key a = k) (sorted_alerts alerts)
       = filter (\<lambda>a. severity_key a = k) alerts"
    by (simp add: sorted_alerts_def sort_key_stable)
  have key: "severity_key a =
       (if severity a = ''EMERGENCY'' then 0 else if severity a = ''CRITICAL'' then 1
        else if severity a = ''HIGH'' then 2 else if severity a = ''MEDIUM'' then 3
        else if severity a = ''LOW'' then 4 else 5)"
    by (simp add: severity_key_def severity_rank_def severity_order_def)
  have example:
    "map severity (sorted_alerts [plain_alert ''HIGH'' 7.5, plain_alert ''EMERGENCY'' 10.0,
                                  plain_alert ''LOW'' 2.0, plain_alert ''CRITICAL'' 9.1])
       = [''EMERGENCY'', ''CRITICAL'', ''HIGH'', ''LOW'']"
    by (simp add: sorted_alerts_def severity_key_def severity_rank_def severity_order_def
        plain_alert_def)
  from handler ordered same stable key severity_ranks example show ?thesis
    by blast
qed

theorem display_sorted_by_severity_only_witness:
  "filter (\<lambda>a. severity_key a = 1)
      (sorted_alerts [plain_alert ''CRITICAL'' 9.0, plain_alert ''EMERGENCY'' 10.0,
                      plain_alert ''CRITICAL'' 9.5])
     = [plain_alert ''CRITICAL'' 9.0, plain_alert ''CRITICAL'' 9.5]
   \<and> severity_key (plain_alert ''INFO'' 1.0) = 5
   \<and> sorted_alerts [plain_alert ''INFO'' 1.0, plain_alert ''LOW'' 2.0,
                      plain_alert ''EMERGENCY'' 10.0]
     = [plain_alert ''EMERGENCY'' 10.0, plain_alert ''LOW'' 2.0, plain_alert ''INFO'' 1.0]"
proof -
  have key: "severity_key (plain_alert sev x) =
       (if sev = ''EMERGENCY'' then 0 else if sev = ''CRITICAL'' then 1
        else if sev = ''HIGH'' then 2 else if sev = ''MEDIUM'' then 3
        else if sev = ''LOW'' then 4 else 5)" for sev x
    using display_sorted_by_severity_only [where a = "plain_alert sev x"]
    by (simp add: plain_alert_def)
  have stable: "filter (\<lambda>a. severity_key a = 1)
      (sorted_alerts [plain_alert ''CRITICAL'' 9.0, plain_alert ''EMERGENCY'' 10.0,
                      plain_alert ''CRITICAL'' 9.5])
     = filter (\<lambda>a. severity_key a = 1) [plain_alert ''CRITICAL'' 9.0,
         plain_alert ''EMERGENCY'' 10.0, plain_alert ''CRITICAL'' 9.5]"
    using display_sorted_by_severity_only [where k = 1 and alerts = "[plain_alert ''CRITICAL'' 9.0,
      plain_alert ''EMERGENCY'' 10.0, plain_alert ''CRITICAL'' 9.5]"]
    by blast
  have order: "sorted_alerts [plain_alert ''INFO'' 1.0, plain_alert ''LOW'' 2.0,
                      plain_alert ''EMERGENCY'' 10.0]
     = [plain_alert ''EMERGENCY'' 10.0, plain_alert ''LOW'' 2.0, plain_alert ''INFO'' 1.0]"
    by (simp add: sorted_alerts_def key)
  from stable order show ?thesis
    by (simp add: key)
qed

text \<open>
  One document that is both a critical vulnerability (score 9.0) and a zero-day report
  (score 9.5): the batch holds two CRITICAL alerts and the default handler prints the
  lower score first.
\<close>

theorem display_order_counterexample:
  "map (map severity) (dispatched (trace (snd (monitoring_cycle default_alert_handler
       (fixed_world [zeroday_doc] ''T1'') (new_monitor ''T0'' [])))))
     = [[''CRITICAL'', ''CRITICAL'']]
   \<and> map (map cvss_score) (handler (snd (monitoring_cycle default_alert_handler
       (fixed_world [zeroday_doc] ''T1'') (new_monitor ''T0'' []))))
     = [[9.0, 9.5]]"
  by code_simp

section \<open>The scheduler loop\<close>

lemma cycle_trace:
  "\<exists>es. trace (snd (monitoring_cycle cb w m)) = trace m @ CycleStarted # es"
  by (simp add: monitoring_cycle_def Let_def split: sum.splits prod.splits option.splits)

lemma cycle_active:
  "monitoring_active (snd (monitoring_cycle cb w m)) = monitoring_active m"
  by (simp add: monitoring_cycle_def Let_def split: sum.splits prod.splits option.splits)

lemma asyncio_sleep_60: "asyncio_sleep 60 = None"
  by (simp add: asyncio_sleep_def float_limit_def)


lemma loop_body_trace:
  "trace (loop_body cb i w m) =
     trace (snd (monitoring_cycle cb w m)) @
       (case fst (monitoring_cycle cb w m) of
          None \<Rightarrow>
            (case asyncio_sleep (i * 60) of
               None \<Rightarrow> [CycleComplete, Slept (i * 60)]
             | Some e \<Rightarrow> [CycleComplete, CycleFailed e, Slept 60])
        | Some e \<Rightarrow> [CycleFailed e, Slept 60])"
  by (cases "monitoring_cycle cb w m")
     (simp add: loop_body_def Let_def stop_monitoring_def split: option.splits)

lemma oversized_interval_sleep_raises:
  "trace (loop_body default_alert_handler (10 ^ 307) (fixed_world [] ''T1'')
            (new_monitor ''T0'' []))
     = [CycleStarted, CycleComplete, CycleFailed OverflowError, Slept 60]"
  by code_simp

lemma loop_body_active:
  "monitoring_active (loop_body cb i w m) = (monitoring_active m \<and> \<not> stop_requested w)"
  using cycle_active [of cb w m]
  by (cases "monitoring_cycle cb w m")
     (auto simp: loop_body_def Let_def stop_monitoring_def split: option.splits)

lemma loop_body_starts_cycle:
  "prefix (trace m @ [CycleStarted]) (trace (loop_body cb i w m))"
proof -
  obtain es where "trace (snd (monitoring_cycle cb w m)) = trace m @ CycleStarted # es"
    using cycle_trace by blast
  then show ?thesis
    by (simp add: loop_body_trace prefix_def)
qed

lemma loop_body_extends: "prefix (trace m) (trace (loop_body cb i w m))"
  using loop_body_starts_cycle [of m cb i w] by (auto simp: prefix_def)

lemma loop_extends: "prefix (trace m) (trace (monitoring_loop cb i ws m))"
proof (induction ws arbitrary: m)
  case Nil
  then show ?case by simp
next
  case (Cons w ws)
  show ?case
  proof (cases "monitoring_active m")
    case True
    have "prefix (trace m) (trace (loop_body cb i w m))"
      by (rule loop_body_extends)
    also have "prefix \<dots> (trace (monitoring_loop cb i ws (loop_body cb i w m)))"
      by (rule Cons.IH)
    finally show ?thesis using True by simp
  next
    case False
    then show ?thesis by simp
  qed
qed

lemma loop_runs_first:
  assumes "monitoring_active m"
  shows "prefix (trace m @ [CycleStarted]) (trace (monitoring_loop cb i (w # ws) m))"
proof -
  have "prefix (trace m @ [CycleStarted]) (trace (loop_body cb i w m))"
    by (rule loop_body_starts_cycle)
  also have "prefix \<dots> (trace (monitoring_loop cb i ws (loop_body cb i w m)))"
    by (rule loop_extends)
  finally show ?thesis using assms by simp
qed




text \<open>
  C8. When a cycle raises while the monitor is active and no stop is requested, the
  monitor stays active, the loop sleeps 60 seconds whatever the configured interval, and
  then starts the next cycle.
\<close>

theorem failed_cycle_backs_off:
  assumes "fst (monitoring_cycle cb w m) = Some e"
    and "monitoring_active m" and "\<not> stop_requested w"
  shows "monitoring_active (loop_body cb i w m)
    \<and> trace (loop_body cb i w m)
        = trace (snd (monitoring_cycle cb w m)) @ [CycleFailed e, Slept 60]
    \<and> prefix (trace (snd (monitoring_cycle cb w m)) @ [CycleFailed e, Slept 60, CycleStarted])
        (trace (monitoring_loop cb i (w # w' # ws) m))"
proof -
  let ?m2 = "loop_body cb i w m"
  have act: "monitoring_active ?m2"
    using assms by (simp add: loop_body_active)
  have tr: "trace ?m2 = trace (snd (monitoring_cycle cb w m)) @ [CycleFailed e, Slept 60]"
    using assms(1) by (simp add: loop_body_trace)
  have "prefix (trace ?m2 @ [CycleStarted]) (trace (monitoring_loop cb i (w' # ws) ?m2))"
    using act by (rule loop_runs_first)
  then have "prefix (trace ?m2 @ [CycleStarted]) (trace (monitoring_loop cb i (w # w' # ws) m))"
    using assms(2) by simp
  with act tr show ?thesis by simp
qed

theorem failed_cycle_backs_off_witness:
  "monitoring_active (loop_body handle_alerts 15 (apt_down_world ''T1'') running_monitor)
   \<and> prefix [CycleStarted, CycleFailed (SearchError ''timed out''), Slept 60, CycleStarted]
       (trace (monitoring_loop handle_alerts 15
          [apt_down_world ''T1'', fixed_world [] ''T2''] running_monitor))"
proof -
  have h1: "fst (monitoring_cycle handle_alerts (apt_down_world ''T1'') running_monitor)
              = Some (SearchError ''timed out'')"
    by code_simp
  have h2: "monitoring_active running_monitor"
    by (simp add: running_monitor_def)
  have h3: "\<not> stop_requested (apt_down_world ''T1'')"
    by (simp add: apt_down_world_def)
  have tr: "trace (snd (monitoring_cycle handle_alerts (apt_down_world ''T1'') running_monitor))
              = [CycleStarted]"
    by code_simp
  show ?thesis
    using failed_cycle_backs_off [OF h1 h2 h3, of 15 "fixed_world [] ''T2''" "[]"]
    by (simp add: tr)
qed

end
